theory Spec2Isabelle
  imports Complex_Main
begin

section \<open>Participants: \<^verbatim>\<open>ModelClient\<close>\<close>

text \<open>
  A chat message is the Python dict \<^verbatim>\<open>{"role": ..., "content": ...}\<close>; both values are
  strings in the source, and the role is kept as the string the source writes.
\<close>

record message =
  role :: string
  content :: string

text \<open>
  The four attributes that \<^verbatim>\<open>ModelClient.__init__\<close> sets. \<^verbatim>\<open>system_prompt\<close> is a
  \<^verbatim>\<open>str\<close> whose default is the empty string.
\<close>

record ModelClient =
  name :: string
  model_name :: string
  system_prompt :: string
  conversation_history :: "message list"

definition ModelClient_init :: "string \<Rightarrow> string \<Rightarrow> string \<Rightarrow> ModelClient" where
  "ModelClient_init n m sp =
     \<lparr>name = n, model_name = m, system_prompt = sp, conversation_history = []\<rparr>"

text \<open>The default value of the third constructor argument.\<close>

definition ModelClient_init_default :: "string \<Rightarrow> string \<Rightarrow> ModelClient" where
  "ModelClient_init_default n m = ModelClient_init n m []"

subsection \<open>The request sent to the endpoint\<close>

record payload =
  model :: string
  messages :: "message list"
  temperature :: real
  max_tokens :: int
  stream :: bool

text \<open>The arguments of \<^verbatim>\<open>session.post(url, json=payload, headers=...)\<close>.\<close>

record request =
  url :: string
  json :: payload
  headers :: "(string \<times> string) list"

subsection \<open>What the endpoint can do with a request\<close>

text \<open>
  Inside the \<^verbatim>\<open>try\<close> block three things can happen. The \<^verbatim>\<open>post\<close> raises an
  \<^verbatim>\<open>Exception\<close> \<open>e\<close> (\<open>TransportFailure (str e)\<close>); or a response with a status code
  arrives. For status 200 the body is decoded and
  \<^verbatim>\<open>result["choices"][0]["message"]["content"]\<close> is read: either that raises an
  \<^verbatim>\<open>Exception\<close> \<open>e\<close> (\<open>Malformed (str e)\<close>: invalid JSON, a missing key, an empty
  list), or it yields the reply (\<open>Completion\<close>), a string as the return annotation
  \<^verbatim>\<open>-> str\<close> of the method says. For any other status the body is never read.
\<close>

datatype body = Malformed string | Completion string

datatype http_outcome = TransportFailure string | Response int body

text \<open>
  The endpoint is any function of the requests posted so far and the current request:
  the theorems quantify over it, so nothing is assumed about the servers.
\<close>

type_synonym network = "request list \<Rightarrow> request \<Rightarrow> http_outcome"

subsection \<open>Formatting an integer as Python's \<^verbatim>\<open>str\<close> does\<close>

definition digit_char :: "nat \<Rightarrow> char" where
  "digit_char d = char_of (48 + d)"

fun str_nat :: "nat \<Rightarrow> string" where
  "str_nat n = (if n < 10 then [digit_char n] else str_nat (n div 10) @ [digit_char (n mod 10)])"

declare str_nat.simps [simp del]

definition str_int :: "int \<Rightarrow> string" where
  "str_int i = (if i < 0 then CHR ''-'' # str_nat (nat (- i)) else str_nat (nat i))"

subsection \<open>\<^verbatim>\<open>ModelClient.generate_response\<close>\<close>

text \<open>Lines 18 to 28: the message list.\<close>

definition build_messages :: "ModelClient \<Rightarrow> string \<Rightarrow> message list" where
  "build_messages self prompt =
     (if system_prompt self \<noteq> []
      then [\<lparr>role = ''system'', content = system_prompt self\<rparr>] else [])
     @ conversation_history self
     @ [\<lparr>role = ''user'', content = prompt\<rparr>]"

text \<open>Lines 30 to 41: the payload and the call.\<close>

definition build_request :: "ModelClient \<Rightarrow> string \<Rightarrow> string \<Rightarrow> real \<Rightarrow> int \<Rightarrow> request" where
  "build_request self prompt base temp maxtok =
     \<lparr>url = base @ ''/v1/chat/completions'',
      json = \<lparr>model = model_name self, messages = build_messages self prompt,
              temperature = temp, max_tokens = maxtok, stream = False\<rparr>,
      headers = [(''Content-Type'', ''application/json'')]\<rparr>"

text \<open>The slice \<^verbatim>\<open>xs[-n:]\<close> for a positive \<open>n\<close>.\<close>

definition last_n :: "nat \<Rightarrow> 'a list \<Rightarrow> 'a list" where
  "last_n n xs = drop (length xs - n) xs"

text \<open>Lines 46 to 52: both appends, then the cut to the last 20 entries.\<close>

definition remember :: "string \<Rightarrow> string \<Rightarrow> message list \<Rightarrow> message list" where
  "remember prompt assistant_response h =
     (let h1 = h @ [\<lparr>role = ''user'', content = prompt\<rparr>];
          h2 = h1 @ [\<lparr>role = ''assistant'', content = assistant_response\<rparr>]
      in if length h2 > 20 then last_n 20 h2 else h2)"

text \<open>
  The whole method. It takes the requests posted so far and returns the reply, the
  client after the call, and the requests posted after it. The \<^verbatim>\<open>except Exception\<close>
  clause turns every failure into a returned string, so the result has no error branch.
\<close>

definition generate_response ::
  "network \<Rightarrow> request list \<Rightarrow> ModelClient \<Rightarrow> string \<Rightarrow> string \<Rightarrow> real \<Rightarrow> int
     \<Rightarrow> string \<times> ModelClient \<times> request list" where
  "generate_response net sent self prompt base temp maxtok =
     (let req = build_request self prompt base temp maxtok;
          sent' = sent @ [req]
      in case net sent req of
           TransportFailure e \<Rightarrow> (''Error: '' @ e, self, sent')
         | Response status b \<Rightarrow>
             if status = 200 then
               (case b of
                  Malformed e \<Rightarrow> (''Error: '' @ e, self, sent')
                | Completion assistant_response \<Rightarrow>
                    (assistant_response,
                     self\<lparr>conversation_history :=
                            remember prompt assistant_response (conversation_history self)\<rparr>,
                     sent'))
             else (''Error: HTTP '' @ str_int status, self, sent'))"

subsection \<open>Sequences of calls on one participant\<close>

text \<open>One exchange as it is remembered: the prompt as a user turn, then the reply.\<close>

definition exchange :: "string \<Rightarrow> string \<Rightarrow> message list" where
  "exchange prompt reply = [\<lparr>role = ''user'', content = prompt\<rparr>, \<lparr>role = ''assistant'', content = reply\<rparr>]"

text \<open>
  A caller that makes one call after another on the same participant, each with its own
  arguments (prompt, base URL, temperature, token budget), and collects the replies.
\<close>

fun generate_responses ::
  "network \<Rightarrow> request list \<Rightarrow> ModelClient \<Rightarrow> (string \<times> string \<times> real \<times> int) list
     \<Rightarrow> string list \<times> ModelClient \<times> request list" where
  "generate_responses net sent self [] = ([], self, sent)"
| "generate_responses net sent self ((prompt, base, temp, maxtok) # rest) =
     (case generate_response net sent self prompt base temp maxtok of
        (reply, self', sent') \<Rightarrow>
          (case generate_responses net sent' self' rest of
             (replies, self'', sent'') \<Rightarrow> (reply # replies, self'', sent'')))"


section \<open>The orchestrator: \<^verbatim>\<open>DialogueOrchestrator\<close>\<close>

text \<open>
  \<^verbatim>\<open>ModelClient\<close> objects are mutable and \<^verbatim>\<open>self.models\<close> holds references to them;
  one object may be registered under two roles. So the objects live in a store, and the
  dict maps a role to an address of the store.
\<close>

type_synonym ref = nat

text \<open>A record of the transcript: the dict with keys "round", "speaker", "content".\<close>

record turn =
  turn_round :: int
  turn_speaker :: string
  turn_content :: string

text \<open>
  The exceptions that \<^verbatim>\<open>run_dialogue\<close> itself can raise: a role that was never
  registered, and the modulo of line 109 with a zero divisor.
\<close>

datatype exn = KeyError string | ZeroDivisionError

text \<open>
  An observation of one call of \<^verbatim>\<open>generate_response\<close> made by \<^verbatim>\<open>run_dialogue\<close>:
  where it was made (the value of \<^verbatim>\<open>round_num + 1\<close>, or the conclusion after the loop),
  the key used in \<^verbatim>\<open>self.models[...]\<close>, the prompt passed and the string returned.
  The observations are written in program order and are read by nothing in the program.
\<close>

datatype phase = Round int | Conclusion

record call =
  call_phase :: phase
  call_role :: string
  call_prompt :: string
  call_reply :: string

text \<open>
  Everything a run can read or change: the store of clients, the three attributes of
  the orchestrator, the requests posted to the endpoint, and the observations.
\<close>

record state =
  heap :: "ref \<Rightarrow> ModelClient"
  base_url :: string
  models :: "string \<rightharpoonup> ref"
  dialogue_history :: "turn list"
  posted :: "request list"
  trace :: "call list"

text \<open>\<^verbatim>\<open>base_url.rstrip('/')\<close> in the constructor.\<close>

definition rstrip_slash :: "string \<Rightarrow> string" where
  "rstrip_slash s = rev (dropWhile (\<lambda>c. c = CHR ''/'') (rev s))"

definition DialogueOrchestrator_init :: "(ref \<Rightarrow> ModelClient) \<Rightarrow> string \<Rightarrow> state" where
  "DialogueOrchestrator_init h b =
     \<lparr>heap = h, base_url = rstrip_slash b, models = Map.empty, dialogue_history = [],
      posted = [], trace = []\<rparr>"

definition add_model :: "string \<Rightarrow> ref \<Rightarrow> state \<Rightarrow> state" where
  "add_model r client st = st\<lparr>models := (models st)(r \<mapsto> client)\<rparr>"

text \<open>
  \<^verbatim>\<open>await client.generate_response(session, prompt, self.base_url)\<close> on the object at
  address \<open>r\<close>, with the defaults 0.7 and 500 of the two remaining parameters. The call
  changes that object and the endpoint's log, and is observed in the trace.
\<close>

definition invoke :: "network \<Rightarrow> phase \<Rightarrow> string \<Rightarrow> ref \<Rightarrow> string \<Rightarrow> state \<Rightarrow> string \<times> state" where
  "invoke net ph k r prompt st =
     (case generate_response net (posted st) (heap st r) prompt (base_url st) (7 / 10) 500 of
        (reply, client', sent') \<Rightarrow>
          (reply,
           st\<lparr>heap := (heap st)(r := client'), posted := sent',
              trace := trace st @ [\<lparr>call_phase = ph, call_role = k,
                                    call_prompt = prompt, call_reply = reply\<rparr>]\<rparr>))"

definition append_turn :: "int \<Rightarrow> string \<Rightarrow> string \<Rightarrow> state \<Rightarrow> state" where
  "append_turn r who text st =
     st\<lparr>dialogue_history := dialogue_history st
           @ [\<lparr>turn_round = r, turn_speaker = who, turn_content = text\<rparr>]\<rparr>"

subsection \<open>The two prompts written for the commentator\<close>

definition nl :: string where
  "nl = [CHR 0x0A]"

definition spaces :: "nat \<Rightarrow> string" where
  "spaces n = replicate n (CHR '' '')"

text \<open>Lines 113 to 121: a triple-quoted f-string, indented by 20 spaces in the source.\<close>

definition recent_exchange :: "string \<Rightarrow> string \<Rightarrow> string \<Rightarrow> string \<Rightarrow> string" where
  "recent_exchange name_a response_a name_b response_b =
     nl @ spaces 20 @ ''Recent exchange:'' @ nl
     @ spaces 20 @ name_a @ '': '' @ response_a @ nl
     @ spaces 20 @ nl
     @ spaces 20 @ name_b @ '': '' @ response_b @ nl
     @ spaces 20 @ nl
     @ spaces 20 @ ''Please provide commentary on this exchange, analyzing the dialogue quality, '' @ nl
     @ spaces 20 @ ''key points, areas of agreement/disagreement, and interesting developments.'' @ nl
     @ spaces 20"

text \<open>Lines 139 to 149, indented by 8 spaces.\<close>

definition final_summary :: "string \<Rightarrow> string \<Rightarrow> string \<Rightarrow> string" where
  "final_summary name_a name_b initial_topic =
     nl @ spaces 8 @ ''Please provide a comprehensive analysis of the entire dialogue between '' @ nl
     @ spaces 8 @ name_a @ '' and '' @ name_b @ '' on the topic: '' @ initial_topic @ nl
     @ spaces 8 @ nl
     @ spaces 8 @ ''Key aspects to analyze:'' @ nl
     @ spaces 8 @ ''- Overall dialogue quality and coherence'' @ nl
     @ spaces 8 @ ''- Main themes and arguments presented'' @ nl
     @ spaces 8 @ ''- Evolution of the discussion'' @ nl
     @ spaces 8 @ ''- Notable insights or interesting points'' @ nl
     @ spaces 8 @ ''- Areas where the models complemented or challenged each other'' @ nl
     @ spaces 8"

subsection \<open>One round of the loop\<close>

text \<open>
  Lines 109 to 127, entered after both primary turns: the trigger, and the call of the
  commentator when it fires. The modulo raises for a zero divisor; for any other
  divisor Python's \<^verbatim>\<open>%\<close> on integers is HOL's \<open>mod\<close> on \<open>int\<close> (the result has the sign
  of the divisor). The names are read from \<^verbatim>\<open>self.models\<close> in the order of the source.
\<close>

definition commentary :: "network \<Rightarrow> int \<Rightarrow> int \<Rightarrow> string \<Rightarrow> string \<Rightarrow> state \<Rightarrow> exn option \<times> state" where
  "commentary net commentary_frequency round_num response_a response_b st =
     (if commentary_frequency = 0 then (Some ZeroDivisionError, st)
      else if (round_num + 1) mod commentary_frequency = 0 then
        (case models st ''commentator'' of
           None \<Rightarrow> (Some (KeyError ''commentator''), st)
         | Some c \<Rightarrow>
            (case models st ''model_a'' of
               None \<Rightarrow> (Some (KeyError ''model_a''), st)
             | Some a \<Rightarrow>
                (case models st ''model_b'' of
                   None \<Rightarrow> (Some (KeyError ''model_b''), st)
                 | Some b \<Rightarrow>
                    (None,
                     snd (invoke net (Round (round_num + 1)) ''commentator'' c
                            (recent_exchange (name (heap st a)) response_a
                               (name (heap st b)) response_b) st)))))
      else (None, st))"

text \<open>
  Lines 81 to 133, the body of the loop for one value of \<^verbatim>\<open>round_num\<close>. It returns
  the exception raised, or the next \<^verbatim>\<open>current_prompt\<close>; the state is the one reached
  in either case, since what was appended before a raise stays appended.
\<close>

definition round_body :: "network \<Rightarrow> int \<Rightarrow> string \<Rightarrow> int \<Rightarrow> state \<Rightarrow> (exn + string) \<times> state" where
  "round_body net commentary_frequency current_prompt round_num st =
     (case models st ''model_a'' of
        None \<Rightarrow> (Inl (KeyError ''model_a''), st)
      | Some a \<Rightarrow>
         (case invoke net (Round (round_num + 1)) ''model_a'' a current_prompt st of
            (response_a, st1) \<Rightarrow>
              let st2 = append_turn (round_num + 1) ''model_a'' response_a st1 in
              (case models st2 ''model_b'' of
                 None \<Rightarrow> (Inl (KeyError ''model_b''), st2)
               | Some b \<Rightarrow>
                  (case invoke net (Round (round_num + 1)) ''model_b'' b response_a st2 of
                     (response_b, st3) \<Rightarrow>
                       let st4 = append_turn (round_num + 1) ''model_b'' response_b st3 in
                       (case commentary net commentary_frequency round_num
                               response_a response_b st4 of
                          (Some e, st5) \<Rightarrow> (Inl e, st5)
                        | (None, st5) \<Rightarrow> (Inr response_b, st5))))))"

subsection \<open>\<^verbatim>\<open>run_dialogue\<close>\<close>

text \<open>\<^verbatim>\<open>range(rounds)\<close>: empty when \<open>rounds\<close> is not positive.\<close>

definition range_py :: "int \<Rightarrow> int list" where
  "range_py n = map int [0..<nat n]"

text \<open>The \<^verbatim>\<open>for\<close> loop over the values of \<^verbatim>\<open>round_num\<close>; an exception ends it.\<close>

fun for_rounds :: "network \<Rightarrow> int \<Rightarrow> string \<Rightarrow> int list \<Rightarrow> state \<Rightarrow> exn option \<times> state" where
  "for_rounds net commentary_frequency current_prompt [] st = (None, st)"
| "for_rounds net commentary_frequency current_prompt (round_num # rest) st =
     (case round_body net commentary_frequency current_prompt round_num st of
        (Inl e, st') \<Rightarrow> (Some e, st')
      | (Inr next_prompt, st') \<Rightarrow> for_rounds net commentary_frequency next_prompt rest st')"

text \<open>Lines 136 to 155: the final commentary.\<close>

definition conclude :: "network \<Rightarrow> string \<Rightarrow> state \<Rightarrow> exn option \<times> state" where
  "conclude net initial_topic st =
     (case models st ''commentator'' of
        None \<Rightarrow> (Some (KeyError ''commentator''), st)
      | Some c \<Rightarrow>
         (case models st ''model_a'' of
            None \<Rightarrow> (Some (KeyError ''model_a''), st)
          | Some a \<Rightarrow>
             (case models st ''model_b'' of
                None \<Rightarrow> (Some (KeyError ''model_b''), st)
              | Some b \<Rightarrow>
                 (None,
                  snd (invoke net Conclusion ''commentator'' c
                         (final_summary (name (heap st a)) (name (heap st b)) initial_topic)
                         st)))))"

text \<open>
  The whole method: the exception it raises, if any, and the state it leaves. Printing
  and the pause of line 133 change nothing that is modelled.
\<close>

definition run_dialogue :: "network \<Rightarrow> string \<Rightarrow> int \<Rightarrow> int \<Rightarrow> state \<Rightarrow> exn option \<times> state" where
  "run_dialogue net initial_topic rounds commentary_frequency st =
     (case for_rounds net commentary_frequency initial_topic (range_py rounds) st of
        (Some e, st') \<Rightarrow> (Some e, st')
      | (None, st') \<Rightarrow> conclude net initial_topic st')"

subsection \<open>Reading the transcript and the trace\<close>

text \<open>The calls made through one key of \<^verbatim>\<open>self.models\<close>, in order.\<close>

definition calls_of :: "string \<Rightarrow> call list \<Rightarrow> call list" where
  "calls_of k cs = filter (\<lambda>c. call_role c = k) cs"

text \<open>The "round" and "speaker" entries of a transcript record.\<close>

definition round_and_speaker :: "turn \<Rightarrow> int \<times> string" where
  "round_and_speaker t = (turn_round t, turn_speaker t)"


subsection \<open>The configuration of \<^verbatim>\<open>main\<close>, with two stub endpoints\<close>

text \<open>An endpoint that always answers with "reply to: " and the last message it was sent.\<close>

definition echo :: network where
  "echo sent req = Response 200 (Completion (''reply to: '' @ content (last (messages (json req)))))"

text \<open>An endpoint whose every post raises.\<close>

definition unreachable :: network where
  "unreachable sent req = TransportFailure ''Cannot connect to host''"

text \<open>
  The three clients that \<^verbatim>\<open>main\<close> builds, at addresses 0, 1 and 2 of the store, with
  their system prompts cut to the first sentence.
\<close>

definition three_clients :: "ref \<Rightarrow> ModelClient" where
  "three_clients r =
     (if r = 0 then ModelClient_init ''Philosopher'' ''qwen3-30b-a3b'' ''You are a thoughtful philosopher.''
      else if r = 1 then ModelClient_init ''Analyst'' ''gemma-3-27b-it-qat'' ''You are an analytical thinker.''
      else ModelClient_init ''Observer'' ''deepseek-r1-distill-qwen-7b'' ''You are an insightful observer.'')"

text \<open>The orchestrator of \<^verbatim>\<open>main\<close> after its three calls of \<^verbatim>\<open>add_model\<close>.\<close>

definition example_setup :: state where
  "example_setup =
     add_model ''commentator'' 2
       (add_model ''model_b'' 1
          (add_model ''model_a'' 0
             (DialogueOrchestrator_init three_clients ''http://10.226.10.31:1234'')))"



section \<open>Properties of \<^verbatim>\<open>generate_response\<close>\<close>

lemma remember_last_n: "remember p r h = last_n 20 (h @ exchange p r)"
  by (simp add: remember_def last_n_def exchange_def Let_def)

lemma last_n_last_n_append: "last_n n (last_n n xs @ ys) = last_n n (xs @ ys)"
proof (cases "n \<le> length xs")
  case True
  then have "length xs + length ys - n = length ys + (length xs - n)" by arith
  with True show ?thesis by (simp add: last_n_def)
next
  case False
  then show ?thesis by (simp add: last_n_def)
qed

lemma gen_success:
  "net sent (build_request self p b t m) = Response 200 (Completion r) \<Longrightarrow>
   generate_response net sent self p b t m =
     (r, self\<lparr>conversation_history := remember p r (conversation_history self)\<rparr>,
      sent @ [build_request self p b t m])"
  by (simp add: generate_response_def Let_def)

lemma history_general:
  assumes ok: "\<forall>sent req. \<exists>r. net sent req = Response 200 (Completion r)"
  shows "generate_responses net sent self args = (replies, self', sent') \<Longrightarrow>
     length replies = length args \<and>
     last_n 20 (conversation_history self') =
       last_n 20 (conversation_history self @ concat (map2 exchange (map fst args) replies))
     \<and> (args \<noteq> [] \<longrightarrow> length (conversation_history self') \<le> 20)"
proof (induction args arbitrary: sent self replies self' sent')
  case Nil
  then show ?case by simp
next
  case (Cons a args)
  obtain p b t m where a: "a = (p, b, t, m)" by (cases a) auto
  from ok obtain r where r: "net sent (build_request self p b t m) = Response 200 (Completion r)"
    by blast
  let ?s1 = "self\<lparr>conversation_history := remember p r (conversation_history self)\<rparr>"
  obtain rs s2 sn2 where rest: "generate_responses net (sent @ [build_request self p b t m]) ?s1 args = (rs, s2, sn2)"
    by (cases "generate_responses net (sent @ [build_request self p b t m]) ?s1 args") auto
  from Cons.prems have eqs: "replies = r # rs" "self' = s2"
    using r by (simp_all add: a gen_success rest)
  from Cons.IH[OF rest] have ih: "length rs = length args"
    "last_n 20 (conversation_history s2) = last_n 20 (conversation_history ?s1 @ concat (map2 exchange (map fst args) rs))"
    "args \<noteq> [] \<longrightarrow> length (conversation_history s2) \<le> 20" by auto
  have "length (conversation_history s2) \<le> 20"
  proof (cases args)
    case Nil
    with rest have "s2 = ?s1" by simp
    then show ?thesis by (simp add: remember_last_n last_n_def)
  next
    case (Cons x xs)
    with ih(3) show ?thesis by simp
  qed
  moreover have "last_n 20 (conversation_history s2) = last_n 20 (conversation_history self @ concat (map2 exchange (map fst (a # args)) (r # rs)))"
    using ih(2) by (simp add: a remember_last_n last_n_last_n_append)
  ultimately show ?case using ih(1) eqs by simp
qed


lemma length_concat_exchange:
  "length ps = length rs \<Longrightarrow> length (concat (map2 exchange ps rs)) = 2 * length ps"
  by (induction ps rs rule: list_induct2) (simp_all add: exchange_def)

lemma length_last_n: "length (last_n n xs) = min (length xs) n"
  by (simp add: last_n_def)

lemma last_n_id: "length xs \<le> n \<Longrightarrow> last_n n xs = xs"
  by (simp add: last_n_def)

text \<open>
  Claim C1. A participant whose memory is empty receives N calls, each answered with
  status 200 and a well-formed completion. After the N-th call its memory has
  \<open>min (2N) 20\<close> entries, and they are the last entries of the chronological list of
  exchanges: each prompt as a user turn followed by its reply as an assistant turn,
  oldest first.
\<close>

theorem memory_cap_after_successful_calls:
  assumes fresh: "conversation_history self = []"
      and ok: "\<forall>sent req. \<exists>r. net sent req = Response 200 (Completion r)"
      and run: "generate_responses net sent self args = (replies, self', sent')"
  shows "length replies = length args
       \<and> length (conversation_history self') = min (2 * length args) 20
       \<and> conversation_history self' =
           last_n (min (2 * length args) 20) (concat (map2 exchange (map fst args) replies))"
proof -
  let ?all = "concat (map2 exchange (map fst args) replies)"
  from history_general[OF ok run] fresh
  have len: "length replies = length args"
    and cut: "last_n 20 (conversation_history self') = last_n 20 ?all"
    and small: "args \<noteq> [] \<longrightarrow> length (conversation_history self') \<le> 20"
    by simp_all
  have "length (conversation_history self') \<le> 20"
  proof (cases args)
    case Nil
    with run fresh show ?thesis by simp
  next
    case (Cons a as)
    with small show ?thesis by simp
  qed
  with cut have h: "conversation_history self' = last_n 20 ?all"
    by (simp add: last_n_id)
  have all: "length ?all = 2 * length args"
    using length_concat_exchange[of "map fst args" replies] len by simp
  have same: "last_n (min (2 * length args) 20) ?all = last_n 20 ?all"
    using all by (simp add: last_n_def min_def)
  from h all have "length (conversation_history self') = min (2 * length args) 20"
    by (simp add: length_last_n)
  with len h same show ?thesis by simp
qed

text \<open>
  The theorem of claim C1 at one successful call.
\<close>

theorem memory_cap_after_successful_calls_witness:
  "conversation_history (ModelClient_init ''Philosopher'' ''m1'' ''Be brief.'') = []
   \<and> (\<forall>sent req. \<exists>r. (\<lambda>s q. Response 200 (Completion ''yes'')) sent req = Response 200 (Completion r))
   \<and> generate_responses (\<lambda>s q. Response 200 (Completion ''yes'')) []
        (ModelClient_init ''Philosopher'' ''m1'' ''Be brief.'') [(''why?'', ''http://h'', 7 / 10, 500)]
      = ([''yes''],
         \<lparr>name = ''Philosopher'', model_name = ''m1'', system_prompt = ''Be brief.'',
          conversation_history = exchange ''why?'' ''yes''\<rparr>,
         [build_request (ModelClient_init ''Philosopher'' ''m1'' ''Be brief.'') ''why?'' ''http://h'' (7 / 10) 500])
   \<and> length (exchange ''why?'' ''yes'') = min (2 * length [(''why?'', ''http://h'', 7 / 10 :: real, 500 :: int)]) 20"
proof -
  let ?net = "\<lambda>(s :: request list) (q :: request). Response 200 (Completion ''yes'')"
  let ?c = "ModelClient_init ''Philosopher'' ''m1'' ''Be brief.''"
  have h1: "conversation_history ?c = []"
    by (simp add: ModelClient_init_def)
  have h2: "\<forall>sent req. \<exists>r. ?net sent req = Response 200 (Completion r)"
    by simp
  have h3: "generate_responses ?net [] ?c [(''why?'', ''http://h'', 7 / 10, 500)]
      = ([''yes''],
         \<lparr>name = ''Philosopher'', model_name = ''m1'', system_prompt = ''Be brief.'',
          conversation_history = exchange ''why?'' ''yes''\<rparr>,
         [build_request ?c ''why?'' ''http://h'' (7 / 10) 500])"
    by (simp add: generate_response_def ModelClient_init_def remember_def exchange_def Let_def)
  from memory_cap_after_successful_calls[OF h1 h2 h3] h1 h2 h3 show ?thesis
    by simp
qed




text \<open>
  Claim C7. Every call posts exactly one request. Its message list is the system
  prompt as one system message when the prompt is not empty, then the memory as it was
  before the call, then the prompt as a user message; its model is the participant's
  model name and its \<open>stream\<close> flag is false.
\<close>

theorem request_is_system_then_memory_then_prompt:
  "snd (snd (generate_response net sent self prompt base temp maxtok)) =
     sent @ [\<lparr>url = base @ ''/v1/chat/completions'',
              json = \<lparr>model = model_name self,
                      messages =
                        (if system_prompt self = [] then []
                         else [\<lparr>role = ''system'', content = system_prompt self\<rparr>])
                        @ conversation_history self
                        @ [\<lparr>role = ''user'', content = prompt\<rparr>],
                      temperature = temp, max_tokens = maxtok, stream = False\<rparr>,
              headers = [(''Content-Type'', ''application/json'')]\<rparr>]"
  by (simp add: generate_response_def build_request_def build_messages_def Let_def
           split: http_outcome.splits body.splits)

lemma generate_response_sent:
  "snd (snd (generate_response net sent self p b t m)) = sent @ [build_request self p b t m]"
  by (simp add: generate_response_def Let_def split: http_outcome.splits body.splits)

lemma generate_response_system_prompt:
  "system_prompt (fst (snd (generate_response net sent self p b t m))) = system_prompt self"
  by (simp add: generate_response_def Let_def split: http_outcome.splits body.splits)

lemma set_last_n: "set (last_n n xs) \<subseteq> set xs"
  by (simp add: last_n_def set_drop_subset)

lemma remember_roles:
  assumes "\<forall>msg\<in>set h. role msg \<noteq> ''system''"
  shows "\<forall>msg\<in>set (remember p r h). role msg \<noteq> ''system''"
proof -
  have "set (remember p r h) \<subseteq> set (h @ exchange p r)"
    by (simp only: remember_last_n set_last_n)
  moreover have "\<forall>msg\<in>set (h @ exchange p r). role msg \<noteq> ''system''"
    using assms by (auto simp: exchange_def)
  ultimately show ?thesis by blast
qed

lemma generate_response_roles:
  assumes "\<forall>msg\<in>set (conversation_history self). role msg \<noteq> ''system''"
  shows "\<forall>msg\<in>set (conversation_history (fst (snd (generate_response net sent self p b t m)))).
           role msg \<noteq> ''system''"
  using assms remember_roles[OF assms]
  by (simp add: generate_response_def Let_def split: http_outcome.splits body.splits)

lemma build_messages_no_system:
  assumes "system_prompt self = []" and "\<forall>msg\<in>set (conversation_history self). role msg \<noteq> ''system''"
  shows "\<forall>msg\<in>set (messages (json (build_request self p b t m))). role msg \<noteq> ''system''"
  using assms by (simp add: build_request_def build_messages_def)

lemma generate_responses_no_system:
  assumes "system_prompt self = []"
      and "\<forall>msg\<in>set (conversation_history self). role msg \<noteq> ''system''"
      and "\<forall>req\<in>set sent. \<forall>msg\<in>set (messages (json req)). role msg \<noteq> ''system''"
      and "generate_responses net sent self args = (replies, self', sent')"
  shows "\<forall>req\<in>set sent'. \<forall>msg\<in>set (messages (json req)). role msg \<noteq> ''system''"
  using assms
proof (induction args arbitrary: sent self replies self' sent')
  case Nil
  then show ?case by simp
next
  case (Cons a args)
  obtain p b t m where a: "a = (p, b, t, m)" by (cases a) auto
  obtain r s1 sn1 where g: "generate_response net sent self p b t m = (r, s1, sn1)"
    by (cases "generate_response net sent self p b t m") auto
  obtain rs s2 sn2 where rest: "generate_responses net sn1 s1 args = (rs, s2, sn2)"
    by (cases "generate_responses net sn1 s1 args") auto
  from Cons.prems(4) have eq: "sent' = sn2" by (simp add: a g rest)
  have sn1: "sn1 = sent @ [build_request self p b t m]"
    using generate_response_sent[of net sent self p b t m] by (simp add: g)
  have sp: "system_prompt s1 = []"
    using generate_response_system_prompt[of net sent self p b t m] Cons.prems(1) by (simp add: g)
  have h: "\<forall>msg\<in>set (conversation_history s1). role msg \<noteq> ''system''"
    using generate_response_roles[OF Cons.prems(2), of net sent p b t m] by (simp add: g)
  have l: "\<forall>req\<in>set sn1. \<forall>msg\<in>set (messages (json req)). role msg \<noteq> ''system''"
    using Cons.prems(3) build_messages_no_system[OF Cons.prems(1,2), of p b t m]
    by (simp add: sn1)
  from Cons.IH[OF sp h l rest] eq show ?case by simp
qed

text \<open>
  Claim C10. With the empty system prompt the message list of a call is the memory
  followed by the user message, with nothing in front. And from a participant built
  with the constructor's default, no request of any sequence of calls carries a message
  whose role is "system".
\<close>

theorem empty_system_prompt_sends_no_system_message:
  "(system_prompt self = [] \<longrightarrow>
      messages (json (last (snd (snd (generate_response net sent self prompt base temp maxtok)))))
        = conversation_history self @ [\<lparr>role = ''user'', content = prompt\<rparr>])
   \<and> (generate_responses net [] (ModelClient_init_default n m) args = (replies, self', sent') \<longrightarrow>
        (\<forall>req\<in>set sent'. \<forall>msg\<in>set (messages (json req)). role msg \<noteq> ''system''))"
proof -
  have "generate_responses net [] (ModelClient_init_default n m) args = (replies, self', sent') \<Longrightarrow>
        (\<forall>req\<in>set sent'. \<forall>msg\<in>set (messages (json req)). role msg \<noteq> ''system'')"
    by (rule generate_responses_no_system[of "ModelClient_init_default n m" "[]" net args replies self' sent'])
       (simp_all add: ModelClient_init_default_def ModelClient_init_def)
  then show ?thesis
    by (simp add: generate_response_sent build_request_def build_messages_def)
qed

text \<open>
  The theorem of claim C10 at one call on a participant built with the default.
\<close>

theorem empty_system_prompt_sends_no_system_message_witness:
  "system_prompt (ModelClient_init_default ''Observer'' ''m3'') = []
   \<and> messages (json (last (snd (snd (generate_response (\<lambda>s q. Response 200 (Completion ''noted'')) []
         (ModelClient_init_default ''Observer'' ''m3'') ''look'' ''http://h'' (7 / 10) 500)))))
       = [\<lparr>role = ''user'', content = ''look''\<rparr>]
   \<and> generate_responses (\<lambda>s q. Response 200 (Completion ''noted'')) []
        (ModelClient_init_default ''Observer'' ''m3'') [(''look'', ''http://h'', 7 / 10, 500)]
      = ([''noted''],
         \<lparr>name = ''Observer'', model_name = ''m3'', system_prompt = [],
          conversation_history = exchange ''look'' ''noted''\<rparr>,
         [build_request (ModelClient_init_default ''Observer'' ''m3'') ''look'' ''http://h'' (7 / 10) 500])
   \<and> \<not> (\<exists>req\<in>set [build_request (ModelClient_init_default ''Observer'' ''m3'') ''look'' ''http://h'' (7 / 10) 500].
        \<exists>msg\<in>set (messages (json req)). role msg = ''system'')"
proof -
  let ?net = "\<lambda>(s :: request list) (q :: request). Response 200 (Completion ''noted'')"
  let ?c = "ModelClient_init_default ''Observer'' ''m3''"
  have h1: "system_prompt ?c = []"
    by (simp add: ModelClient_init_default_def ModelClient_init_def)
  have h2: "generate_responses ?net [] ?c [(''look'', ''http://h'', 7 / 10, 500)]
      = ([''noted''],
         \<lparr>name = ''Observer'', model_name = ''m3'', system_prompt = [],
          conversation_history = exchange ''look'' ''noted''\<rparr>,
         [build_request ?c ''look'' ''http://h'' (7 / 10) 500])"
    by (simp add: generate_response_def ModelClient_init_default_def ModelClient_init_def
          remember_def exchange_def Let_def)
  have h3: "conversation_history ?c = []"
    by (simp add: ModelClient_init_default_def ModelClient_init_def)
  from empty_system_prompt_sends_no_system_message
         [of ?c ?net "[]" "''look''" "''http://h''" "7 / 10" 500 "''Observer''" "''m3''"
             "[(''look'', ''http://h'', 7 / 10, 500)]" "[''noted'']"
             "\<lparr>name = ''Observer'', model_name = ''m3'', system_prompt = [],
               conversation_history = exchange ''look'' ''noted''\<rparr>"
             "[build_request ?c ''look'' ''http://h'' (7 / 10) 500]"]
       h1 h2 h3
  show ?thesis by simp
qed

section \<open>Properties of \<^verbatim>\<open>run_dialogue\<close>\<close>

subsection \<open>What one call and one round change\<close>

lemma invoke_frame:
  "models (snd (invoke net ph k r p st)) = models st"
  "base_url (snd (invoke net ph k r p st)) = base_url st"
  "dialogue_history (snd (invoke net ph k r p st)) = dialogue_history st"
  by (simp_all add: invoke_def split: prod.splits)

lemma invoke_trace:
  "trace (snd (invoke net ph k r p st)) =
     trace st @ [\<lparr>call_phase = ph, call_role = k, call_prompt = p,
                  call_reply = fst (invoke net ph k r p st)\<rparr>]"
  by (simp add: invoke_def split: prod.splits)

lemma invoke_reply:
  "fst (invoke net ph k r p st) =
     fst (generate_response net (posted st) (heap st r) p (base_url st) (7 / 10) 500)"
  by (simp add: invoke_def split: prod.splits)

lemma invoke_heap:
  "heap (snd (invoke net ph k r p st)) =
     (heap st)(r := fst (snd (generate_response net (posted st) (heap st r) p (base_url st) (7 / 10) 500)))"
  by (simp add: invoke_def split: prod.splits)

lemma append_turn_frame:
  "models (append_turn r who text st) = models st"
  "base_url (append_turn r who text st) = base_url st"
  "trace (append_turn r who text st) = trace st"
  "heap (append_turn r who text st) = heap st"
  "posted (append_turn r who text st) = posted st"
  "dialogue_history (append_turn r who text st) =
     dialogue_history st @ [\<lparr>turn_round = r, turn_speaker = who, turn_content = text\<rparr>]"
  by (simp_all add: append_turn_def)

lemma commentary_history:
  "dialogue_history (snd (commentary net F r ra rb st)) = dialogue_history st"
  by (simp add: commentary_def invoke_frame split: option.splits)

lemma commentary_ok:
  assumes "models st ''model_a'' = Some a" "models st ''model_b'' = Some b"
          "models st ''commentator'' = Some c" "F \<noteq> 0"
  shows "fst (commentary net F r ra rb st) = None"
    and "models (snd (commentary net F r ra rb st)) = models st"
    and "base_url (snd (commentary net F r ra rb st)) = base_url st"
    and "(r + 1) mod F \<noteq> 0 \<Longrightarrow> trace (snd (commentary net F r ra rb st)) = trace st"
    and "(r + 1) mod F = 0 \<Longrightarrow> \<exists>p rc. trace (snd (commentary net F r ra rb st)) =
            trace st @ [\<lparr>call_phase = Round (r + 1), call_role = ''commentator'',
                         call_prompt = p, call_reply = rc\<rparr>]"
  using assms by (simp_all add: commentary_def invoke_frame invoke_trace)

lemma round_body_ok:
  assumes reg: "models st ''model_a'' = Some a" "models st ''model_b'' = Some b"
          "models st ''commentator'' = Some c" and F: "F \<noteq> 0"
      and Q: "\<forall>sent cl p u. Q (fst (generate_response net sent cl p u (7 / 10) 500))"
  shows "\<exists>ra rb cs st'. round_body net F cur r st = (Inr rb, st') \<and> models st' = models st
           \<and> base_url st' = base_url st \<and> Q ra \<and> Q rb
           \<and> dialogue_history st' = dialogue_history st @
                [\<lparr>turn_round = r + 1, turn_speaker = ''model_a'', turn_content = ra\<rparr>,
                 \<lparr>turn_round = r + 1, turn_speaker = ''model_b'', turn_content = rb\<rparr>]
           \<and> trace st' = trace st @
                [\<lparr>call_phase = Round (r + 1), call_role = ''model_a'', call_prompt = cur, call_reply = ra\<rparr>,
                 \<lparr>call_phase = Round (r + 1), call_role = ''model_b'', call_prompt = ra, call_reply = rb\<rparr>] @ cs
           \<and> ((r + 1) mod F = 0 \<longrightarrow>
                 (\<exists>p rc. cs = [\<lparr>call_phase = Round (r + 1), call_role = ''commentator'',
                                  call_prompt = p, call_reply = rc\<rparr>]))
           \<and> ((r + 1) mod F \<noteq> 0 \<longrightarrow> cs = [])"
proof -
  obtain ra st1 where i1: "invoke net (Round (r + 1)) ''model_a'' a cur st = (ra, st1)"
    by (cases "invoke net (Round (r + 1)) ''model_a'' a cur st") auto
  let ?st2 = "append_turn (r + 1) ''model_a'' ra st1"
  obtain rb st3 where i2: "invoke net (Round (r + 1)) ''model_b'' b ra ?st2 = (rb, st3)"
    by (cases "invoke net (Round (r + 1)) ''model_b'' b ra ?st2") auto
  let ?st4 = "append_turn (r + 1) ''model_b'' rb st3"
  have f1: "models st1 = models st" "base_url st1 = base_url st"
    "dialogue_history st1 = dialogue_history st"
    "trace st1 = trace st @ [\<lparr>call_phase = Round (r + 1), call_role = ''model_a'', call_prompt = cur, call_reply = ra\<rparr>]"
    using invoke_frame[of net "Round (r + 1)" "''model_a''" a cur st]
          invoke_trace[of net "Round (r + 1)" "''model_a''" a cur st]
    by (simp_all add: i1)
  have qa: "Q ra"
    using invoke_reply[of net "Round (r + 1)" "''model_a''" a cur st] Q by (simp add: i1)
  have f3: "models st3 = models st" "base_url st3 = base_url st"
    "dialogue_history st3 = dialogue_history st @ [\<lparr>turn_round = r + 1, turn_speaker = ''model_a'', turn_content = ra\<rparr>]"
    "trace st3 = trace st @ [\<lparr>call_phase = Round (r + 1), call_role = ''model_a'', call_prompt = cur, call_reply = ra\<rparr>,
                 \<lparr>call_phase = Round (r + 1), call_role = ''model_b'', call_prompt = ra, call_reply = rb\<rparr>]"
    using invoke_frame[of net "Round (r + 1)" "''model_b''" b ra ?st2]
          invoke_trace[of net "Round (r + 1)" "''model_b''" b ra ?st2]
    by (simp_all add: i2 f1 append_turn_frame)
  have qb: "Q rb"
    using invoke_reply[of net "Round (r + 1)" "''model_b''" b ra ?st2] Q by (simp add: i2)
  have reg4: "models ?st4 ''model_a'' = Some a" "models ?st4 ''model_b'' = Some b"
          "models ?st4 ''commentator'' = Some c"
    using reg by (simp_all add: append_turn_frame f3)
  obtain e5 st5 where c1: "commentary net F r ra rb ?st4 = (e5, st5)"
    by (cases "commentary net F r ra rb ?st4") auto
  have e5: "e5 = None"
    using commentary_ok(1)[OF reg4 F, of net r ra rb] by (simp add: c1)
  have m5: "models st5 = models st" "base_url st5 = base_url st"
    using commentary_ok(2,3)[OF reg4 F, of net r ra rb] by (simp_all add: c1 append_turn_frame f3)
  have h5: "dialogue_history st5 = dialogue_history ?st4"
    using commentary_history[of net F r ra rb ?st4] by (simp add: c1)
  define cs where "cs = drop (length (trace ?st4)) (trace st5)"
  have t5: "trace st5 = trace ?st4 @ cs
    \<and> ((r + 1) mod F = 0 \<longrightarrow>
                 (\<exists>p rc. cs = [\<lparr>call_phase = Round (r + 1), call_role = ''commentator'',
                                  call_prompt = p, call_reply = rc\<rparr>]))
    \<and> ((r + 1) mod F \<noteq> 0 \<longrightarrow> cs = [])"
  proof (cases "(r + 1) mod F = 0")
    case True
    from commentary_ok(5)[OF reg4 F True, of net ra rb] obtain p rc where
      "trace st5 = trace ?st4 @ [\<lparr>call_phase = Round (r + 1), call_role = ''commentator'',
                         call_prompt = p, call_reply = rc\<rparr>]"
      by (auto simp: c1)
    then have "trace st5 = trace ?st4 @ cs"
      "cs = [\<lparr>call_phase = Round (r + 1), call_role = ''commentator'',
                         call_prompt = p, call_reply = rc\<rparr>]"
      by (simp_all add: cs_def)
    with True show ?thesis by simp
  next
    case False
    from commentary_ok(4)[OF reg4 F False, of net ra rb]
    have "trace st5 = trace ?st4" by (simp add: c1)
    then have "trace st5 = trace ?st4 @ cs" "cs = []"
      by (simp_all add: cs_def)
    with False show ?thesis by simp
  qed
  have rb_eq: "round_body net F cur r st = (Inr rb, st5)"
    using reg by (simp add: round_body_def i1 i2 c1 e5 f1 append_turn_frame Let_def)
  have hist: "dialogue_history st5 = dialogue_history st @
                [\<lparr>turn_round = r + 1, turn_speaker = ''model_a'', turn_content = ra\<rparr>,
                 \<lparr>turn_round = r + 1, turn_speaker = ''model_b'', turn_content = rb\<rparr>]"
    by (simp add: h5 append_turn_frame f3)
  have tr: "trace st5 = trace st @
                [\<lparr>call_phase = Round (r + 1), call_role = ''model_a'', call_prompt = cur, call_reply = ra\<rparr>,
                 \<lparr>call_phase = Round (r + 1), call_role = ''model_b'', call_prompt = ra, call_reply = rb\<rparr>] @ cs"
    using t5 by (simp add: append_turn_frame f3)
  show ?thesis
    by (rule exI[of _ ra], rule exI[of _ rb], rule exI[of _ cs], rule exI[of _ st5])
       (use rb_eq m5 qa qb hist tr t5 in simp)
qed


lemma calls_of_simps:
  "calls_of k [] = []"
  "calls_of k (c # cs) = (if call_role c = k then c # calls_of k cs else calls_of k cs)"
  "calls_of k (xs @ ys) = calls_of k xs @ calls_of k ys"
  by (simp_all add: calls_of_def)

lemma for_rounds_ok:
  assumes reg: "models st ''model_a'' = Some a" "models st ''model_b'' = Some b"
          "models st ''commentator'' = Some c" and F: "F \<noteq> 0"
      and Q: "\<forall>sent cl p u. Q (fst (generate_response net sent cl p u (7 / 10) 500))"
  shows "\<exists>calls turns st'. for_rounds net F cur rs st = (None, st')
     \<and> models st' = models st \<and> base_url st' = base_url st
     \<and> dialogue_history st' = dialogue_history st @ turns \<and> trace st' = trace st @ calls
     \<and> map round_and_speaker turns =
          concat (map (\<lambda>r. [(r + 1, ''model_a''), (r + 1, ''model_b'')]) rs)
     \<and> (\<forall>t\<in>set turns. Q (turn_content t))
     \<and> map call_phase (calls_of ''model_a'' calls) = map (\<lambda>r. Round (r + 1)) rs
     \<and> map call_phase (calls_of ''model_b'' calls) = map (\<lambda>r. Round (r + 1)) rs
     \<and> map call_phase (calls_of ''commentator'' calls) =
          map (\<lambda>r. Round (r + 1)) (filter (\<lambda>r. (r + 1) mod F = 0) rs)
     \<and> map call_prompt (calls_of ''model_a'' calls) =
          take (length rs) (cur # map call_reply (calls_of ''model_b'' calls))
     \<and> map call_prompt (calls_of ''model_b'' calls) = map call_reply (calls_of ''model_a'' calls)"
  using reg
proof (induction rs arbitrary: cur st)
  case Nil
  show ?case
    by (rule exI[of _ "[]"], rule exI[of _ "[]"], rule exI[of _ st]) (simp add: calls_of_simps)
next
  case (Cons r rs)
  from round_body_ok[where Q = Q and net = net and F = F and cur = cur and r = r, OF Cons.prems F Q]
  obtain ra rb cs st1 where step: "round_body net F cur r st = (Inr rb, st1)"
     and m1: "models st1 = models st" and u1: "base_url st1 = base_url st"
     and q: "Q ra" "Q rb"
     and h1: "dialogue_history st1 = dialogue_history st @
                [\<lparr>turn_round = r + 1, turn_speaker = ''model_a'', turn_content = ra\<rparr>,
                 \<lparr>turn_round = r + 1, turn_speaker = ''model_b'', turn_content = rb\<rparr>]"
     and t1: "trace st1 = trace st @
                [\<lparr>call_phase = Round (r + 1), call_role = ''model_a'', call_prompt = cur, call_reply = ra\<rparr>,
                 \<lparr>call_phase = Round (r + 1), call_role = ''model_b'', call_prompt = ra, call_reply = rb\<rparr>] @ cs"
     and cs: "(r + 1) mod F = 0 \<longrightarrow>
                 (\<exists>p rc. cs = [\<lparr>call_phase = Round (r + 1), call_role = ''commentator'',
                                  call_prompt = p, call_reply = rc\<rparr>])"
             "(r + 1) mod F \<noteq> 0 \<longrightarrow> cs = []"
    by (elim exE conjE)
  have reg1: "models st1 ''model_a'' = Some a" "models st1 ''model_b'' = Some b"
          "models st1 ''commentator'' = Some c"
    using Cons.prems by (simp_all add: m1)
  from Cons.IH[OF reg1, of rb]
  obtain calls turns st2 where loop: "for_rounds net F rb rs st1 = (None, st2)"
     and m2: "models st2 = models st1" and u2: "base_url st2 = base_url st1"
     and h2: "dialogue_history st2 = dialogue_history st1 @ turns"
     and t2: "trace st2 = trace st1 @ calls"
     and rs2: "map round_and_speaker turns =
          concat (map (\<lambda>r. [(r + 1, ''model_a''), (r + 1, ''model_b'')]) rs)"
     and q2: "\<forall>t\<in>set turns. Q (turn_content t)"
     and pa: "map call_phase (calls_of ''model_a'' calls) = map (\<lambda>r. Round (r + 1)) rs"
     and pb: "map call_phase (calls_of ''model_b'' calls) = map (\<lambda>r. Round (r + 1)) rs"
     and pc: "map call_phase (calls_of ''commentator'' calls) =
          map (\<lambda>r. Round (r + 1)) (filter (\<lambda>r. (r + 1) mod F = 0) rs)"
     and thread: "map call_prompt (calls_of ''model_a'' calls) =
          take (length rs) (rb # map call_reply (calls_of ''model_b'' calls))"
     and ba: "map call_prompt (calls_of ''model_b'' calls) = map call_reply (calls_of ''model_a'' calls)"
    by (elim exE conjE)
  let ?A = "\<lparr>call_phase = Round (r + 1), call_role = ''model_a'', call_prompt = cur, call_reply = ra\<rparr>"
  let ?B = "\<lparr>call_phase = Round (r + 1), call_role = ''model_b'', call_prompt = ra, call_reply = rb\<rparr>"
  let ?calls = "[?A, ?B] @ cs @ calls"
  let ?turns = "[\<lparr>turn_round = r + 1, turn_speaker = ''model_a'', turn_content = ra\<rparr>,
                 \<lparr>turn_round = r + 1, turn_speaker = ''model_b'', turn_content = rb\<rparr>] @ turns"
  have csA: "calls_of ''model_a'' cs = []" and csB: "calls_of ''model_b'' cs = []"
    using cs by (cases "(r + 1) mod F = 0"; auto simp: calls_of_simps)+
  have csC: "map call_phase (calls_of ''commentator'' cs) =
               (if (r + 1) mod F = 0 then [Round (r + 1)] else [])"
    using cs by (cases "(r + 1) mod F = 0") (auto simp: calls_of_simps)
  have g1: "for_rounds net F cur (r # rs) st = (None, st2)"
    by (simp add: step loop)
  have g2: "models st2 = models st" "base_url st2 = base_url st"
    by (simp_all add: m1 m2 u1 u2)
  have g3: "dialogue_history st2 = dialogue_history st @ ?turns"
    by (simp add: h2 h1)
  have g4: "trace st2 = trace st @ ?calls"
    by (simp add: t2 t1)
  have g5: "map round_and_speaker ?turns =
          concat (map (\<lambda>r. [(r + 1, ''model_a''), (r + 1, ''model_b'')]) (r # rs))"
    by (simp add: rs2 round_and_speaker_def)
  have g6: "\<forall>t\<in>set ?turns. Q (turn_content t)"
    using q q2 by simp
  have g7: "map call_phase (calls_of ''model_a'' ?calls) = map (\<lambda>r. Round (r + 1)) (r # rs)"
    by (simp add: calls_of_simps csA pa)
  have g8: "map call_phase (calls_of ''model_b'' ?calls) = map (\<lambda>r. Round (r + 1)) (r # rs)"
    by (simp add: calls_of_simps csB pb)
  have g9: "map call_phase (calls_of ''commentator'' ?calls) =
          map (\<lambda>r. Round (r + 1)) (filter (\<lambda>r. (r + 1) mod F = 0) (r # rs))"
    by (simp add: calls_of_simps csC pc)
  have g10: "map call_prompt (calls_of ''model_a'' ?calls) =
          take (length (r # rs)) (cur # map call_reply (calls_of ''model_b'' ?calls))"
    by (simp add: calls_of_simps csA csB thread)
  have g11: "map call_prompt (calls_of ''model_b'' ?calls) = map call_reply (calls_of ''model_a'' ?calls)"
    by (simp add: calls_of_simps csA csB ba)
  show ?case
    by (rule exI[of _ ?calls], rule exI[of _ ?turns], rule exI[of _ st2])
       (intro conjI; rule g1 g2 g3 g4 g5 g6 g7 g8 g9 g10 g11)
qed

lemma conclude_history:
  "dialogue_history (snd (conclude net topic st)) = dialogue_history st"
  by (simp add: conclude_def invoke_frame split: option.splits)

lemma conclude_ok:
  assumes "models st ''model_a'' = Some a" "models st ''model_b'' = Some b"
          "models st ''commentator'' = Some c"
  shows "fst (conclude net topic st) = None"
    and "\<exists>rc. trace (snd (conclude net topic st)) =
            trace st @ [\<lparr>call_phase = Conclusion, call_role = ''commentator'',
                         call_prompt = final_summary (name (heap st a)) (name (heap st b)) topic,
                         call_reply = rc\<rparr>]"
  using assms by (simp_all add: conclude_def invoke_frame invoke_trace)

lemma run_dialogue_ok:
  assumes reg: "models st ''model_a'' = Some a" "models st ''model_b'' = Some b"
          "models st ''commentator'' = Some c" and F: "F \<noteq> 0"
      and Q: "\<forall>sent cl p u. Q (fst (generate_response net sent cl p u (7 / 10) 500))"
  shows "\<exists>calls turns fin. fst (run_dialogue net topic R F st) = None
     \<and> dialogue_history (snd (run_dialogue net topic R F st)) = dialogue_history st @ turns
     \<and> trace (snd (run_dialogue net topic R F st)) = trace st @ calls @ [fin]
     \<and> call_phase fin = Conclusion \<and> call_role fin = ''commentator''
     \<and> map round_and_speaker turns =
          concat (map (\<lambda>r. [(r + 1, ''model_a''), (r + 1, ''model_b'')]) (range_py R))
     \<and> (\<forall>t\<in>set turns. Q (turn_content t))
     \<and> map call_phase (calls_of ''model_a'' calls) = map (\<lambda>r. Round (r + 1)) (range_py R)
     \<and> map call_phase (calls_of ''model_b'' calls) = map (\<lambda>r. Round (r + 1)) (range_py R)
     \<and> map call_phase (calls_of ''commentator'' calls) =
          map (\<lambda>r. Round (r + 1)) (filter (\<lambda>r. (r + 1) mod F = 0) (range_py R))
     \<and> map call_prompt (calls_of ''model_a'' calls) =
          take (length (range_py R)) (topic # map call_reply (calls_of ''model_b'' calls))
     \<and> map call_prompt (calls_of ''model_b'' calls) = map call_reply (calls_of ''model_a'' calls)"
proof -
  from for_rounds_ok[where Q = Q and net = net and F = F and cur = topic and rs = "range_py R",
         OF reg F Q]
  obtain calls turns st1 where loop: "for_rounds net F topic (range_py R) st = (None, st1)"
     and m1: "models st1 = models st"
     and h1: "dialogue_history st1 = dialogue_history st @ turns"
     and t1: "trace st1 = trace st @ calls"
     and g5: "map round_and_speaker turns =
          concat (map (\<lambda>r. [(r + 1, ''model_a''), (r + 1, ''model_b'')]) (range_py R))"
     and g6: "\<forall>t\<in>set turns. Q (turn_content t)"
     and g7: "map call_phase (calls_of ''model_a'' calls) = map (\<lambda>r. Round (r + 1)) (range_py R)"
     and g8: "map call_phase (calls_of ''model_b'' calls) = map (\<lambda>r. Round (r + 1)) (range_py R)"
     and g9: "map call_phase (calls_of ''commentator'' calls) =
          map (\<lambda>r. Round (r + 1)) (filter (\<lambda>r. (r + 1) mod F = 0) (range_py R))"
     and g10: "map call_prompt (calls_of ''model_a'' calls) =
          take (length (range_py R)) (topic # map call_reply (calls_of ''model_b'' calls))"
     and g11: "map call_prompt (calls_of ''model_b'' calls) = map call_reply (calls_of ''model_a'' calls)"
    by (elim exE conjE)
  have reg1: "models st1 ''model_a'' = Some a" "models st1 ''model_b'' = Some b"
          "models st1 ''commentator'' = Some c"
    using reg by (simp_all add: m1)
  have run: "run_dialogue net topic R F st = conclude net topic st1"
    by (simp add: run_dialogue_def loop)
  from conclude_ok(2)[OF reg1, of net topic] obtain rc where
    t2: "trace (snd (conclude net topic st1)) =
            trace st1 @ [\<lparr>call_phase = Conclusion, call_role = ''commentator'',
                         call_prompt = final_summary (name (heap st1 a)) (name (heap st1 b)) topic,
                         call_reply = rc\<rparr>]"
    by blast
  let ?fin = "\<lparr>call_phase = Conclusion, call_role = ''commentator'',
                         call_prompt = final_summary (name (heap st1 a)) (name (heap st1 b)) topic,
                         call_reply = rc\<rparr>"
  have e1: "fst (run_dialogue net topic R F st) = None"
    using conclude_ok(1)[OF reg1, of net topic] by (simp add: run)
  have e2: "dialogue_history (snd (run_dialogue net topic R F st)) = dialogue_history st @ turns"
    by (simp add: run conclude_history h1)
  have e3: "trace (snd (run_dialogue net topic R F st)) = trace st @ calls @ [?fin]"
    by (simp add: run t2 t1)
  have e4: "call_phase ?fin = Conclusion" "call_role ?fin = ''commentator''"
    by simp_all
  show ?thesis
    by (rule exI[of _ calls], rule exI[of _ turns], rule exI[of _ ?fin])
       (intro conjI; rule e1 e2 e3 e4 g5 g6 g7 g8 g9 g10 g11)
qed

subsection \<open>Lists of pairs, and the multiples of the frequency\<close>

lemma length_concat_pairs:
  "length (concat (map (\<lambda>r. [f r, g r]) xs)) = 2 * length xs"
  by (induction xs) simp_all

lemma nth_concat_pairs:
  "i < length xs \<Longrightarrow>
     concat (map (\<lambda>r. [f r, g r]) xs) ! (2 * i) = f (xs ! i)
     \<and> concat (map (\<lambda>r. [f r, g r]) xs) ! (2 * i + 1) = g (xs ! i)"
proof (induction xs arbitrary: i)
  case Nil
  then show ?case by simp
next
  case (Cons x xs)
  show ?case
  proof (cases i)
    case 0
    then show ?thesis by simp
  next
    case (Suc j)
    with Cons.prems have "j < length xs" by simp
    from Cons.IH[OF this] Suc show ?thesis by simp
  qed
qed

lemma sorted_rounds_of_pairs:
  "sorted xs \<Longrightarrow>
     sorted (map fst (concat (map (\<lambda>r. [(r + 1, a), (r + 1, b)]) xs)) :: int list)"
proof (induction xs)
  case Nil
  then show ?case by simp
next
  case (Cons x xs)
  have "set (map fst (concat (map (\<lambda>r. [(r + 1, a), (r + 1, b)]) xs))) = (\<lambda>r. r + 1) ` set xs"
    by (induction xs) auto
  with Cons show ?case by auto
qed

lemma sorted_map_int_upt: "sorted (map int [0..<k])"
  by (induction k) (simp_all add: sorted_append)

lemma sorted_range_py: "sorted (range_py n)"
  by (simp add: range_py_def sorted_map_int_upt)

lemma length_range_py: "length (range_py n) = nat n"
  by (simp add: range_py_def)

lemma nth_range_py: "i < nat n \<Longrightarrow> range_py n ! i = int i"
  by (simp add: range_py_def)



subsection \<open>The claims about a run\<close>

lemma example_registered: "models example_setup ''model_a'' = Some 0" "models example_setup ''model_b'' = Some 1"
   "models example_setup ''commentator'' = Some 2"
  by (simp_all add: example_setup_def add_model_def DialogueOrchestrator_init_def)

lemma round_and_speaker_fst: "map turn_round turns = map fst (map round_and_speaker turns)"
  by (simp add: round_and_speaker_def comp_def)

text \<open>
  Claim C2. With the three roles registered and a commentary frequency other than
  zero, a run of \<open>R\<close> rounds raises nothing and appends exactly \<open>2R\<close> records to the
  transcript. Records \<open>2i\<close> and \<open>2i + 1\<close> are those of round \<open>i + 1\<close>, by "model_a" and
  then by "model_b", so the round fields never decrease.
\<close>

theorem transcript_has_two_turns_per_round:
  assumes reg: "models st ''model_a'' = Some a" "models st ''model_b'' = Some b"
          "models st ''commentator'' = Some c" and F: "F \<noteq> 0"
  shows "fst (run_dialogue net topic R F st) = None
     \<and> (\<exists>turns. dialogue_history (snd (run_dialogue net topic R F st)) = dialogue_history st @ turns
          \<and> length turns = 2 * nat R
          \<and> (\<forall>i<nat R. round_and_speaker (turns ! (2 * i)) = (int i + 1, ''model_a'')
                     \<and> round_and_speaker (turns ! (2 * i + 1)) = (int i + 1, ''model_b''))
          \<and> sorted (map turn_round turns))"
proof -
  have Q: "\<forall>sent cl p u. (\<lambda>s. True) (fst (generate_response net sent cl p u (7 / 10) 500))"
    by simp
  let ?ps = "concat (map (\<lambda>r. [(r + 1, ''model_a''), (r + 1, ''model_b'')]) (range_py R))"
  from run_dialogue_ok[where Q = "\<lambda>s. True" and net = net and F = F and topic = topic and R = R,
         OF reg F Q]
  obtain turns where e1: "fst (run_dialogue net topic R F st) = None"
    and e2: "dialogue_history (snd (run_dialogue net topic R F st)) = dialogue_history st @ turns"
    and ps: "map round_and_speaker turns = ?ps"
    by (elim exE conjE)
  have len0: "length (map round_and_speaker turns) = 2 * nat R"
    by (simp only: ps length_concat_pairs length_range_py)
  then have len: "length turns = 2 * nat R" by simp
  have nth: "\<forall>i<nat R. round_and_speaker (turns ! (2 * i)) = (int i + 1, ''model_a'')
                     \<and> round_and_speaker (turns ! (2 * i + 1)) = (int i + 1, ''model_b'')"
  proof (intro allI impI)
    fix i assume i: "i < nat R"
    then have r: "i < length (range_py R)" by (simp add: length_range_py)
    from i len have b: "2 * i < length turns" "2 * i + 1 < length turns" by simp_all
    have "round_and_speaker (turns ! (2 * i)) = ?ps ! (2 * i)"
      using nth_map[OF b(1), of round_and_speaker] by (simp only: ps)
    moreover have "round_and_speaker (turns ! (2 * i + 1)) = ?ps ! (2 * i + 1)"
      using nth_map[OF b(2), of round_and_speaker] by (simp only: ps)
    ultimately show "round_and_speaker (turns ! (2 * i)) = (int i + 1, ''model_a'')
                     \<and> round_and_speaker (turns ! (2 * i + 1)) = (int i + 1, ''model_b'')"
      using nth_concat_pairs[OF r, of "\<lambda>r. (r + 1, ''model_a'')" "\<lambda>r. (r + 1, ''model_b'')"]
      by (simp add: nth_range_py[OF i])
  qed
  have srt: "sorted (map turn_round turns)"
    by (simp only: round_and_speaker_fst ps sorted_rounds_of_pairs[OF sorted_range_py])
  from e1 e2 len nth srt show ?thesis by blast
qed


text \<open>
  Claim C4. Primary A is called once in each round and so is primary B. The prompt of
  A in round 1 is the initial topic, and the prompt of A in round \<open>r + 1\<close> is the reply
  that B returned in round \<open>r\<close>.
\<close>

theorem prompt_threading:
  assumes reg: "models st ''model_a'' = Some a" "models st ''model_b'' = Some b"
          "models st ''commentator'' = Some c" and F: "F \<noteq> 0"
  shows "fst (run_dialogue net topic R F st) = None
     \<and> (\<exists>calls. trace (snd (run_dialogue net topic R F st)) = trace st @ calls
          \<and> length (calls_of ''model_a'' calls) = nat R
          \<and> length (calls_of ''model_b'' calls) = nat R
          \<and> (\<forall>i<nat R. call_phase (calls_of ''model_a'' calls ! i) = Round (int i + 1)
                     \<and> call_phase (calls_of ''model_b'' calls ! i) = Round (int i + 1))
          \<and> (0 < R \<longrightarrow> call_prompt (calls_of ''model_a'' calls ! 0) = topic)
          \<and> (\<forall>i. Suc i < nat R \<longrightarrow>
                 call_prompt (calls_of ''model_a'' calls ! Suc i) =
                 call_reply (calls_of ''model_b'' calls ! i)))"
proof -
  have Q: "\<forall>sent cl p u. (\<lambda>s. True) (fst (generate_response net sent cl p u (7 / 10) 500))"
    by simp
  from run_dialogue_ok[where Q = "\<lambda>s. True" and net = net and F = F and topic = topic and R = R,
         OF reg F Q]
  obtain calls fin where e1: "fst (run_dialogue net topic R F st) = None"
    and e3: "trace (snd (run_dialogue net topic R F st)) = trace st @ calls @ [fin]"
    and fin: "call_phase fin = Conclusion" "call_role fin = ''commentator''"
    and pa: "map call_phase (calls_of ''model_a'' calls) = map (\<lambda>r. Round (r + 1)) (range_py R)"
    and pb: "map call_phase (calls_of ''model_b'' calls) = map (\<lambda>r. Round (r + 1)) (range_py R)"
    and th: "map call_prompt (calls_of ''model_a'' calls) =
          take (length (range_py R)) (topic # map call_reply (calls_of ''model_b'' calls))"
    by (elim exE conjE)
  let ?all = "calls @ [fin]"
  let ?As = "calls_of ''model_a'' ?all" and ?Bs = "calls_of ''model_b'' ?all"
  have A: "?As = calls_of ''model_a'' calls" and B: "?Bs = calls_of ''model_b'' calls"
    by (simp_all add: calls_of_simps fin)
  have "length (map call_phase ?As) = nat R" "length (map call_phase ?Bs) = nat R"
    by (simp_all only: A B pa pb length_map length_range_py)
  then have la: "length ?As = nat R" and lb: "length ?Bs = nat R" by simp_all
  have phases: "\<forall>i<nat R. call_phase (?As ! i) = Round (int i + 1)
                     \<and> call_phase (?Bs ! i) = Round (int i + 1)"
  proof (intro allI impI)
    fix i assume i: "i < nat R"
    have "call_phase (?As ! i) = map call_phase ?As ! i" using i la by simp
    also have "\<dots> = Round (int i + 1)"
      using i by (simp only: A pa) (simp add: length_range_py nth_range_py)
    finally have 1: "call_phase (?As ! i) = Round (int i + 1)" .
    have "call_phase (?Bs ! i) = map call_phase ?Bs ! i" using i lb by simp
    also have "\<dots> = Round (int i + 1)"
      using i by (simp only: B pb) (simp add: length_range_py nth_range_py)
    finally have 2: "call_phase (?Bs ! i) = Round (int i + 1)" .
    from 1 2 show "call_phase (?As ! i) = Round (int i + 1)
                     \<and> call_phase (?Bs ! i) = Round (int i + 1)" by simp
  qed
  have th': "map call_prompt ?As = take (nat R) (topic # map call_reply ?Bs)"
    by (simp only: A B th length_range_py)
  have first: "0 < R \<longrightarrow> call_prompt (?As ! 0) = topic"
  proof
    assume "0 < R"
    then have p: "0 < nat R" by simp
    then have "call_prompt (?As ! 0) = map call_prompt ?As ! 0" using la by simp
    also have "\<dots> = topic" using p by (simp only: th') simp
    finally show "call_prompt (?As ! 0) = topic" .
  qed
  have later: "\<forall>i. Suc i < nat R \<longrightarrow> call_prompt (?As ! Suc i) = call_reply (?Bs ! i)"
  proof (intro allI impI)
    fix i assume i: "Suc i < nat R"
    then have "call_prompt (?As ! Suc i) = map call_prompt ?As ! Suc i" using la by simp
    also have "\<dots> = (topic # map call_reply ?Bs) ! Suc i" using i by (simp only: th') simp
    also have "\<dots> = call_reply (?Bs ! i)" using i lb by simp
    finally show "call_prompt (?As ! Suc i) = call_reply (?Bs ! i)" .
  qed
  have e3': "trace (snd (run_dialogue net topic R F st)) = trace st @ ?all"
    by (simp add: e3)
  show ?thesis
    by (rule conjI[OF e1], rule exI[of _ ?all])
       (intro conjI; rule e3' la lb phases first later)
qed

lemma failing_network_replies:
  assumes "\<forall>sent req. \<exists>e. net sent req = TransportFailure e"
  shows "\<forall>sent cl p u. (\<lambda>s. \<exists>e. s = ''Error: '' @ e)
           (fst (generate_response net sent cl p u (7 / 10) 500))"
proof (intro allI)
  fix sent cl p u
  from assms obtain e where "net sent (build_request cl p u (7 / 10) 500) = TransportFailure e"
    by blast
  then show "(\<lambda>s. \<exists>e. s = ''Error: '' @ e) (fst (generate_response net sent cl p u (7 / 10) 500))"
    by (simp add: generate_response_def Let_def)
qed

text \<open>
  Claim C5. When every post raises, a run of \<open>R\<close> rounds still raises nothing, goes
  through all its rounds and appends \<open>2R\<close> records, and the content of each is an error
  string.
\<close>

theorem failing_network_still_completes:
  assumes reg: "models st ''model_a'' = Some a" "models st ''model_b'' = Some b"
          "models st ''commentator'' = Some c" and F: "F \<noteq> 0"
      and down: "\<forall>sent req. \<exists>e. net sent req = TransportFailure e"
  shows "fst (run_dialogue net topic R F st) = None
     \<and> (\<exists>turns. dialogue_history (snd (run_dialogue net topic R F st)) = dialogue_history st @ turns
          \<and> length turns = 2 * nat R
          \<and> map round_and_speaker turns =
               concat (map (\<lambda>r. [(r + 1, ''model_a''), (r + 1, ''model_b'')]) (range_py R))
          \<and> (\<forall>t\<in>set turns. \<exists>e. turn_content t = ''Error: '' @ e))"
proof -
  let ?ps = "concat (map (\<lambda>r. [(r + 1, ''model_a''), (r + 1, ''model_b'')]) (range_py R))"
  from run_dialogue_ok[where Q = "\<lambda>s. \<exists>e. s = ''Error: '' @ e" and net = net and F = F
         and topic = topic and R = R, OF reg F failing_network_replies[OF down]]
  obtain turns where e1: "fst (run_dialogue net topic R F st) = None"
    and e2: "dialogue_history (snd (run_dialogue net topic R F st)) = dialogue_history st @ turns"
    and ps: "map round_and_speaker turns = ?ps"
    and q: "\<forall>t\<in>set turns. \<exists>e. turn_content t = ''Error: '' @ e"
    by (elim exE conjE)
  have "length (map round_and_speaker turns) = 2 * nat R"
    by (simp only: ps length_concat_pairs length_range_py)
  then have len: "length turns = 2 * nat R" by simp
  show ?thesis
    by (rule conjI[OF e1], rule exI[of _ turns]) (intro conjI; rule e2 len ps q)
qed

lemma snd_of_pairs:
  "p \<in> set (concat (map (\<lambda>r. [(r + 1, a), (r + 1, b)]) xs)) \<Longrightarrow> snd p = a \<or> snd p = b"
  by auto

lemma commentary_heap:
  assumes "models st ''model_a'' = Some a" "models st ''model_b'' = Some b"
          "models st ''commentator'' = Some c" "F \<noteq> 0" "(r + 1) mod F = 0"
  shows "heap (snd (commentary net F r ra rb st)) =
           (heap st)(c := fst (snd (generate_response net (posted st) (heap st c)
               (recent_exchange (name (heap st a)) ra (name (heap st b)) rb)
               (base_url st) (7 / 10) 500)))"
  using assms by (simp add: commentary_def invoke_heap)

lemma conclude_heap:
  assumes "models st ''model_a'' = Some a" "models st ''model_b'' = Some b"
          "models st ''commentator'' = Some c"
  shows "heap (snd (conclude net topic st)) =
           (heap st)(c := fst (snd (generate_response net (posted st) (heap st c)
               (final_summary (name (heap st a)) (name (heap st b)) topic)
               (base_url st) (7 / 10) 500)))"
  using assms by (simp add: conclude_def invoke_heap)

text \<open>
  Claim C8. The commentary of a round and the final commentary leave the transcript as
  it was. Where the commentary is triggered, the commentator's object in the store is
  replaced by the client that \<^verbatim>\<open>generate_response\<close> returns, so on a successful reply
  its memory receives the prompt and the reply as any participant's does. Every record
  that a run appends is spoken by "model_a" or "model_b".
\<close>

theorem commentator_never_touches_transcript:
  assumes reg: "models st ''model_a'' = Some a" "models st ''model_b'' = Some b"
          "models st ''commentator'' = Some c" and F: "F \<noteq> 0"
      and trig: "(r + 1) mod F = 0"
  shows "dialogue_history (snd (commentary net F r ra rb st)) = dialogue_history st
     \<and> dialogue_history (snd (conclude net topic st)) = dialogue_history st
     \<and> heap (snd (commentary net F r ra rb st)) =
           (heap st)(c := fst (snd (generate_response net (posted st) (heap st c)
               (recent_exchange (name (heap st a)) ra (name (heap st b)) rb)
               (base_url st) (7 / 10) 500)))
     \<and> heap (snd (conclude net topic st)) =
           (heap st)(c := fst (snd (generate_response net (posted st) (heap st c)
               (final_summary (name (heap st a)) (name (heap st b)) topic)
               (base_url st) (7 / 10) 500)))
     \<and> (\<forall>reply. net (posted st) (build_request (heap st c)
                     (recent_exchange (name (heap st a)) ra (name (heap st b)) rb)
                     (base_url st) (7 / 10) 500) = Response 200 (Completion reply) \<longrightarrow>
          conversation_history (heap (snd (commentary net F r ra rb st)) c) =
            remember (recent_exchange (name (heap st a)) ra (name (heap st b)) rb) reply
              (conversation_history (heap st c)))
     \<and> (\<exists>turns. dialogue_history (snd (run_dialogue net topic R F st)) = dialogue_history st @ turns
          \<and> (\<forall>t\<in>set turns. turn_speaker t = ''model_a'' \<or> turn_speaker t = ''model_b''))"
proof -
  let ?p = "recent_exchange (name (heap st a)) ra (name (heap st b)) rb"
  have c1: "dialogue_history (snd (commentary net F r ra rb st)) = dialogue_history st"
    by (rule commentary_history)
  have c2: "dialogue_history (snd (conclude net topic st)) = dialogue_history st"
    by (rule conclude_history)
  note c3 = commentary_heap[OF reg F trig, of net ra rb]
  note c4 = conclude_heap[OF reg, of net topic]
  have c5: "\<forall>reply. net (posted st) (build_request (heap st c) ?p (base_url st) (7 / 10) 500)
                 = Response 200 (Completion reply) \<longrightarrow>
          conversation_history (heap (snd (commentary net F r ra rb st)) c) =
            remember ?p reply (conversation_history (heap st c))"
    by (simp add: c3 generate_response_def Let_def)
  have Q: "\<forall>sent cl p u. (\<lambda>s. True) (fst (generate_response net sent cl p u (7 / 10) 500))"
    by simp
  from run_dialogue_ok[where Q = "\<lambda>s. True" and net = net and F = F and topic = topic and R = R,
         OF reg F Q]
  obtain turns where
        e2: "dialogue_history (snd (run_dialogue net topic R F st)) = dialogue_history st @ turns"
    and ps: "map round_and_speaker turns =
          concat (map (\<lambda>r. [(r + 1, ''model_a''), (r + 1, ''model_b'')]) (range_py R))"
    by (elim exE conjE)
  have sp: "\<forall>t\<in>set turns. turn_speaker t = ''model_a'' \<or> turn_speaker t = ''model_b''"
  proof
    fix t assume "t \<in> set turns"
    then have "round_and_speaker t \<in> set (map round_and_speaker turns)" by simp
    then have "round_and_speaker t \<in>
        set (concat (map (\<lambda>r. [(r + 1, ''model_a''), (r + 1, ''model_b'')]) (range_py R)))"
      by (simp only: ps)
    from snd_of_pairs[OF this]
    show "turn_speaker t = ''model_a'' \<or> turn_speaker t = ''model_b''"
      by (simp add: round_and_speaker_def)
  qed
  have c6: "\<exists>turns. dialogue_history (snd (run_dialogue net topic R F st)) = dialogue_history st @ turns
          \<and> (\<forall>t\<in>set turns. turn_speaker t = ''model_a'' \<or> turn_speaker t = ''model_b'')"
    by (rule exI[of _ turns]) (intro conjI; rule e2 sp)
  show ?thesis
    by (intro conjI; rule c1 c2 c3 c4 c5 c6)
qed

lemma range_py_pos: "1 \<le> n \<Longrightarrow> range_py n = 0 # map int [1..<nat n]"
  by (simp add: range_py_def upt_conv_Cons)

text \<open>
  Claim C9. With a commentary frequency of zero and at least one round, the run raises
  \<^verbatim>\<open>ZeroDivisionError\<close> in round 1: by then both primaries have been called once and
  their two records are in the transcript, and nothing follows.
\<close>

theorem zero_frequency_raises_in_round_one:
  assumes reg: "models st ''model_a'' = Some a" "models st ''model_b'' = Some b"
      and R: "1 \<le> R"
  shows "\<exists>ra rb. fst (run_dialogue net topic R 0 st) = Some ZeroDivisionError
     \<and> dialogue_history (snd (run_dialogue net topic R 0 st)) = dialogue_history st @
          [\<lparr>turn_round = 1, turn_speaker = ''model_a'', turn_content = ra\<rparr>,
           \<lparr>turn_round = 1, turn_speaker = ''model_b'', turn_content = rb\<rparr>]
     \<and> trace (snd (run_dialogue net topic R 0 st)) = trace st @
          [\<lparr>call_phase = Round 1, call_role = ''model_a'', call_prompt = topic, call_reply = ra\<rparr>,
           \<lparr>call_phase = Round 1, call_role = ''model_b'', call_prompt = ra, call_reply = rb\<rparr>]"
proof -
  obtain ra st1 where i1: "invoke net (Round 1) ''model_a'' a topic st = (ra, st1)"
    by (cases "invoke net (Round 1) ''model_a'' a topic st") auto
  let ?st2 = "append_turn 1 ''model_a'' ra st1"
  obtain rb st3 where i2: "invoke net (Round 1) ''model_b'' b ra ?st2 = (rb, st3)"
    by (cases "invoke net (Round 1) ''model_b'' b ra ?st2") auto
  let ?st4 = "append_turn 1 ''model_b'' rb st3"
  have f1: "models st1 = models st" "dialogue_history st1 = dialogue_history st"
    "trace st1 = trace st @ [\<lparr>call_phase = Round 1, call_role = ''model_a'', call_prompt = topic, call_reply = ra\<rparr>]"
    using invoke_frame[of net "Round 1" "''model_a''" a topic st]
          invoke_trace[of net "Round 1" "''model_a''" a topic st]
    by (simp_all add: i1)
  have f3: "dialogue_history st3 = dialogue_history st @ [\<lparr>turn_round = 1, turn_speaker = ''model_a'', turn_content = ra\<rparr>]"
    "trace st3 = trace st @ [\<lparr>call_phase = Round 1, call_role = ''model_a'', call_prompt = topic, call_reply = ra\<rparr>,
                 \<lparr>call_phase = Round 1, call_role = ''model_b'', call_prompt = ra, call_reply = rb\<rparr>]"
    using invoke_frame[of net "Round 1" "''model_b''" b ra ?st2]
          invoke_trace[of net "Round 1" "''model_b''" b ra ?st2]
    by (simp_all add: i2 f1 append_turn_frame)
  have body: "round_body net 0 topic 0 st = (Inl ZeroDivisionError, ?st4)"
    using reg by (simp add: round_body_def commentary_def i1 i2 f1 append_turn_frame Let_def)
  have run: "run_dialogue net topic R 0 st = (Some ZeroDivisionError, ?st4)"
    by (simp add: run_dialogue_def range_py_pos[OF R] body)
  show ?thesis
    by (rule exI[of _ ra], rule exI[of _ rb]) (simp add: run append_turn_frame f3)
qed


text \<open>
  The theorem of claim C2 on the configuration of \<^verbatim>\<open>main\<close>: three rounds, six records.
\<close>

theorem transcript_has_two_turns_per_round_witness:
  "models example_setup ''model_a'' = Some 0 \<and> models example_setup ''model_b'' = Some 1
   \<and> models example_setup ''commentator'' = Some 2 \<and> (2 :: int) \<noteq> 0
   \<and> (fst (run_dialogue echo ''AI?'' 3 2 example_setup) = None
     \<and> (\<exists>turns. dialogue_history (snd (run_dialogue echo ''AI?'' 3 2 example_setup))
                   = dialogue_history example_setup @ turns
          \<and> length turns = 2 * nat 3
          \<and> (\<forall>i<nat 3. round_and_speaker (turns ! (2 * i)) = (int i + 1, ''model_a'')
                     \<and> round_and_speaker (turns ! (2 * i + 1)) = (int i + 1, ''model_b''))
          \<and> sorted (map turn_round turns)))
   \<and> map round_and_speaker (dialogue_history (snd (run_dialogue echo ''AI?'' 3 2 example_setup)))
       = [(1, ''model_a''), (1, ''model_b''), (2, ''model_a''), (2, ''model_b''),
          (3, ''model_a''), (3, ''model_b'')]"
proof -
  have F: "(2 :: int) \<noteq> 0" by simp
  have ev: "map round_and_speaker (dialogue_history (snd (run_dialogue echo ''AI?'' 3 2 example_setup)))
       = [(1, ''model_a''), (1, ''model_b''), (2, ''model_a''), (2, ''model_b''),
          (3, ''model_a''), (3, ''model_b'')]"
    by code_simp
  note t = transcript_has_two_turns_per_round[OF example_registered F, of echo "''AI?''" 3]
  from example_registered F t ev show ?thesis by blast
qed


text \<open>
  The theorem of claim C4 for three rounds against the echoing endpoint.
\<close>

theorem prompt_threading_witness:
  "models example_setup ''model_a'' = Some 0 \<and> models example_setup ''model_b'' = Some 1
   \<and> models example_setup ''commentator'' = Some 2 \<and> (2 :: int) \<noteq> 0
   \<and> (fst (run_dialogue echo ''AI?'' 3 2 example_setup) = None
     \<and> (\<exists>calls. trace (snd (run_dialogue echo ''AI?'' 3 2 example_setup)) = trace example_setup @ calls
          \<and> length (calls_of ''model_a'' calls) = nat 3
          \<and> length (calls_of ''model_b'' calls) = nat 3
          \<and> (\<forall>i<nat 3. call_phase (calls_of ''model_a'' calls ! i) = Round (int i + 1)
                     \<and> call_phase (calls_of ''model_b'' calls ! i) = Round (int i + 1))
          \<and> ((0 :: int) < 3 \<longrightarrow> call_prompt (calls_of ''model_a'' calls ! 0) = ''AI?'')
          \<and> (\<forall>i. Suc i < nat 3 \<longrightarrow>
                 call_prompt (calls_of ''model_a'' calls ! Suc i) =
                 call_reply (calls_of ''model_b'' calls ! i))))
   \<and> map call_prompt (calls_of ''model_a'' (trace (snd (run_dialogue echo ''AI?'' 3 2 example_setup))))
       = [''AI?'', ''reply to: reply to: AI?'', ''reply to: reply to: reply to: reply to: AI?'']
   \<and> map call_reply (calls_of ''model_b'' (trace (snd (run_dialogue echo ''AI?'' 3 2 example_setup))))
       = [''reply to: reply to: AI?'', ''reply to: reply to: reply to: reply to: AI?'',
          ''reply to: reply to: reply to: reply to: reply to: reply to: AI?'']"
proof -
  have F: "(2 :: int) \<noteq> 0" by simp
  have ev1: "map call_prompt (calls_of ''model_a'' (trace (snd (run_dialogue echo ''AI?'' 3 2 example_setup))))
       = [''AI?'', ''reply to: reply to: AI?'', ''reply to: reply to: reply to: reply to: AI?'']"
    by code_simp
  have ev2: "map call_reply (calls_of ''model_b'' (trace (snd (run_dialogue echo ''AI?'' 3 2 example_setup))))
       = [''reply to: reply to: AI?'', ''reply to: reply to: reply to: reply to: AI?'',
          ''reply to: reply to: reply to: reply to: reply to: reply to: AI?'']"
    by code_simp
  note t = prompt_threading[OF example_registered F, of echo "''AI?''" 3]
  from example_registered F t ev1 ev2 show ?thesis by blast
qed

text \<open>
  The theorem of claim C5 for two rounds against the unreachable endpoint.
\<close>

theorem failing_network_still_completes_witness:
  "models example_setup ''model_a'' = Some 0 \<and> models example_setup ''model_b'' = Some 1
   \<and> models example_setup ''commentator'' = Some 2 \<and> (2 :: int) \<noteq> 0
   \<and> (\<forall>sent req. \<exists>e. unreachable sent req = TransportFailure e)
   \<and> (fst (run_dialogue unreachable ''AI?'' 2 2 example_setup) = None
     \<and> (\<exists>turns. dialogue_history (snd (run_dialogue unreachable ''AI?'' 2 2 example_setup))
                   = dialogue_history example_setup @ turns
          \<and> length turns = 2 * nat 2
          \<and> map round_and_speaker turns =
               concat (map (\<lambda>r. [(r + 1, ''model_a''), (r + 1, ''model_b'')]) (range_py 2))
          \<and> (\<forall>t\<in>set turns. \<exists>e. turn_content t = ''Error: '' @ e)))
   \<and> map turn_content (dialogue_history (snd (run_dialogue unreachable ''AI?'' 2 2 example_setup)))
       = [''Error: Cannot connect to host'', ''Error: Cannot connect to host'',
          ''Error: Cannot connect to host'', ''Error: Cannot connect to host'']"
proof -
  have F: "(2 :: int) \<noteq> 0" by simp
  have down: "\<forall>sent req. \<exists>e. unreachable sent req = TransportFailure e"
    by (simp add: unreachable_def)
  have ev: "map turn_content (dialogue_history (snd (run_dialogue unreachable ''AI?'' 2 2 example_setup)))
       = [''Error: Cannot connect to host'', ''Error: Cannot connect to host'',
          ''Error: Cannot connect to host'', ''Error: Cannot connect to host'']"
    by code_simp
  note t = failing_network_still_completes[OF example_registered F down, of "''AI?''" 2]
  from example_registered F down t ev show ?thesis by blast
qed

text \<open>
  The theorem of claim C9 on the configuration of \<^verbatim>\<open>main\<close> with frequency zero.
\<close>

theorem zero_frequency_raises_in_round_one_witness:
  "models example_setup ''model_a'' = Some 0 \<and> models example_setup ''model_b'' = Some 1
   \<and> (1 :: int) \<le> 3
   \<and> (\<exists>ra rb. fst (run_dialogue echo ''AI?'' 3 0 example_setup) = Some ZeroDivisionError
     \<and> dialogue_history (snd (run_dialogue echo ''AI?'' 3 0 example_setup)) = dialogue_history example_setup @
          [\<lparr>turn_round = 1, turn_speaker = ''model_a'', turn_content = ra\<rparr>,
           \<lparr>turn_round = 1, turn_speaker = ''model_b'', turn_content = rb\<rparr>]
     \<and> trace (snd (run_dialogue echo ''AI?'' 3 0 example_setup)) = trace example_setup @
          [\<lparr>call_phase = Round 1, call_role = ''model_a'', call_prompt = ''AI?'', call_reply = ra\<rparr>,
           \<lparr>call_phase = Round 1, call_role = ''model_b'', call_prompt = ra, call_reply = rb\<rparr>])
   \<and> fst (run_dialogue echo ''AI?'' 3 0 example_setup) = Some ZeroDivisionError
   \<and> dialogue_history (snd (run_dialogue echo ''AI?'' 3 0 example_setup)) =
          [\<lparr>turn_round = 1, turn_speaker = ''model_a'', turn_content = ''reply to: AI?''\<rparr>,
           \<lparr>turn_round = 1, turn_speaker = ''model_b'', turn_content = ''reply to: reply to: AI?''\<rparr>]"
proof -
  have R: "(1 :: int) \<le> 3" by simp
  have ev1: "fst (run_dialogue echo ''AI?'' 3 0 example_setup) = Some ZeroDivisionError"
    by code_simp
  have ev2: "dialogue_history (snd (run_dialogue echo ''AI?'' 3 0 example_setup)) =
          [\<lparr>turn_round = 1, turn_speaker = ''model_a'', turn_content = ''reply to: AI?''\<rparr>,
           \<lparr>turn_round = 1, turn_speaker = ''model_b'', turn_content = ''reply to: reply to: AI?''\<rparr>]"
    by code_simp
  note t = zero_frequency_raises_in_round_one[OF example_registered(1,2) R, of echo "''AI?''"]
  from example_registered(1,2) R t ev1 ev2 show ?thesis by blast
qed

text \<open>
  The theorem of claim C8 at a triggered commentary against the echoing endpoint.
\<close>

theorem commentator_never_touches_transcript_witness:
  "models example_setup ''model_a'' = Some 0 \<and> models example_setup ''model_b'' = Some 1
   \<and> models example_setup ''commentator'' = Some 2 \<and> (2 :: int) \<noteq> 0
   \<and> ((1 :: int) + 1) mod 2 = 0
   \<and> echo (posted example_setup)
        (build_request (heap example_setup 2)
           (recent_exchange (name (heap example_setup 0)) ''x'' (name (heap example_setup 1)) ''y'')
           (base_url example_setup) (7 / 10) 500)
      = Response 200 (Completion (''reply to: '' @
           recent_exchange (name (heap example_setup 0)) ''x'' (name (heap example_setup 1)) ''y''))
   \<and> dialogue_history (snd (commentary echo 2 1 ''x'' ''y'' example_setup)) = dialogue_history example_setup
   \<and> dialogue_history (snd (conclude echo ''AI?'' example_setup)) = dialogue_history example_setup
   \<and> conversation_history (heap (snd (commentary echo 2 1 ''x'' ''y'' example_setup)) 2) =
        remember (recent_exchange (name (heap example_setup 0)) ''x'' (name (heap example_setup 1)) ''y'')
          (''reply to: '' @
             recent_exchange (name (heap example_setup 0)) ''x'' (name (heap example_setup 1)) ''y'')
          (conversation_history (heap example_setup 2))
   \<and> (\<exists>turns. dialogue_history (snd (run_dialogue echo ''AI?'' 3 2 example_setup))
                 = dialogue_history example_setup @ turns
          \<and> (\<forall>t\<in>set turns. turn_speaker t = ''model_a'' \<or> turn_speaker t = ''model_b''))
   \<and> dialogue_history (snd (commentary echo 2 1 ''x'' ''y'' example_setup)) = []
   \<and> length (conversation_history (heap (snd (commentary echo 2 1 ''x'' ''y'' example_setup)) 2)) = 2"
proof -
  have F: "(2 :: int) \<noteq> 0" by simp
  have trig: "((1 :: int) + 1) mod 2 = 0" by simp
  have ok: "echo (posted example_setup)
        (build_request (heap example_setup 2)
           (recent_exchange (name (heap example_setup 0)) ''x'' (name (heap example_setup 1)) ''y'')
           (base_url example_setup) (7 / 10) 500)
      = Response 200 (Completion (''reply to: '' @
           recent_exchange (name (heap example_setup 0)) ''x'' (name (heap example_setup 1)) ''y''))"
    by (simp add: echo_def build_request_def build_messages_def)
  have ev1: "dialogue_history (snd (commentary echo 2 1 ''x'' ''y'' example_setup)) = []"
    by code_simp
  have ev2: "length (conversation_history (heap (snd (commentary echo 2 1 ''x'' ''y'' example_setup)) 2)) = 2"
    by code_simp
  note t = commentator_never_touches_transcript[OF example_registered F trig,
             of echo "''x''" "''y''" "''AI?''" 3]
  from example_registered F trig ok t ev1 ev2 show ?thesis by blast
qed

end
